theory Spec2Isabelle
  imports Main "HOL-Library.Sublist" "HOL-Library.AList"
begin

section \<open>JavaScript values and built-ins used by server.ts\<close>

text \<open>
  Data that went through \<^verbatim>\<open>JSON.parse\<close>, or that \<^verbatim>\<open>JSON.stringify\<close> is about to
  see. An object is its list of own properties in insertion order, keys distinct.
  Numbers are kept to the integers; the program itself computes with none of them.
\<close>

datatype json =
    JNull
  | JBool bool
  | JNum int
  | JStr string
  | JArr "json list"
  | JObj "(string \<times> json) list"

text \<open>
  A JavaScript \<^verbatim>\<open>Error\<close>: its message, and the enumerable own properties that
  \<^verbatim>\<open>JSON.stringify\<close> would print (none for a plain \<^verbatim>\<open>new Error(msg)\<close>).
\<close>

datatype Error = Error (message: string) (enumerable: "(string \<times> json) list")

definition TypeError :: "string \<Rightarrow> Error" where
  "TypeError msg = Error msg []"

definition SyntaxError :: "string \<Rightarrow> Error" where
  "SyntaxError msg = Error msg []"

text \<open>
  The text of a file, seen through \<^verbatim>\<open>JSON.parse\<close>: \<open>JsonText v\<close> is text that parses
  to \<open>v\<close>, \<open>PlainText s\<close> is the text \<open>s\<close> on which \<^verbatim>\<open>JSON.parse\<close> throws. That
  \<^verbatim>\<open>JSON.parse(JSON.stringify(v))\<close> gives back \<open>v\<close> for JSON data is the language's
  guarantee and is built into this representation; indentation is not represented.
\<close>

datatype contents = JsonText json | PlainText string

definition JSON_stringify :: "json \<Rightarrow> contents" where
  "JSON_stringify v = JsonText v"

definition JSON_parse :: "contents \<Rightarrow> Error + json" where
  "JSON_parse t =
     (case t of
        JsonText v \<Rightarrow> Inr v
      | PlainText s \<Rightarrow> Inl (SyntaxError ''Unexpected token''))"

subsection \<open>Strings\<close>

text \<open>
  Characters are the bytes of UTF-8 text. The two case conversions are the engine's:
  \<^verbatim>\<open>toLowerCase\<close> is the default conversion of Unicode, \<^verbatim>\<open>toLocaleLowerCase\<close> the one
  of the host's locale (a Turkic locale lowers \<^verbatim>\<open>I\<close> to the dotless i). Neither goes
  character by character or keeps the length of a string, so both are taken as they
  are given; only that the empty string stays empty is written out.
\<close>

record caseConversions =
  lowerCaseOf :: "string \<Rightarrow> string"
  localeLowerCaseOf :: "string \<Rightarrow> string"

definition toLowerCase :: "caseConversions \<Rightarrow> string \<Rightarrow> string" where
  "toLowerCase C s = (if s = [] then [] else lowerCaseOf C s)"

definition toLocaleLowerCase :: "caseConversions \<Rightarrow> string \<Rightarrow> string" where
  "toLocaleLowerCase C s = (if s = [] then [] else localeLowerCaseOf C s)"

definition startsWith :: "string \<Rightarrow> string \<Rightarrow> bool" where
  "startsWith s p = (take (length p) s = p)"

definition endsWith :: "string \<Rightarrow> string \<Rightarrow> bool" where
  "endsWith s t = (length t \<le> length s \<and> drop (length s - length t) s = t)"

text \<open>\<^verbatim>\<open>s.split(sep)\<close> for a separator of one character.\<close>

fun split :: "string \<Rightarrow> char \<Rightarrow> string list" where
  "split [] sep = [[]]"
| "split (c # cs) sep =
     (if c = sep then [] # split cs sep
      else (case split cs sep of
              [] \<Rightarrow> [[c]]
            | x # xs \<Rightarrow> (c # x) # xs))"

text \<open>\<^verbatim>\<open>s.replace(pat, rep)\<close> with a string pattern: the first occurrence only.\<close>

fun replace :: "string \<Rightarrow> string \<Rightarrow> string \<Rightarrow> string" where
  "replace [] pat rep = (if pat = [] then rep else [])"
| "replace (c # cs) pat rep =
     (if startsWith (c # cs) pat then rep @ drop (length pat) (c # cs)
      else c # replace cs pat rep)"

text \<open>A number in a template literal: its decimal digits.\<close>

fun decimal :: "nat \<Rightarrow> string" where
  "decimal n = (if n < 10 then [] else decimal (n div 10)) @ [''0123456789'' ! (n mod 10)]"

definition decimalInt :: "int \<Rightarrow> string" where
  "decimalInt i = (if 0 \<le> i then decimal (nat i) else CHR ''-'' # decimal (nat (- i)))"

text \<open>\<^verbatim>\<open>parseInt\<close> on a string of decimal digits, which is all the route lets through.\<close>

definition digitValue :: "char \<Rightarrow> nat" where
  "digitValue c = (case map_of (zip ''0123456789'' [0 ..< 10]) c of Some d \<Rightarrow> d | None \<Rightarrow> 0)"

definition parseInt :: "string \<Rightarrow> nat" where
  "parseInt s = foldl (\<lambda>n c. 10 * n + digitValue c) 0 s"

fun join :: "string \<Rightarrow> string list \<Rightarrow> string" where
  "join sep [] = []"
| "join sep [x] = x"
| "join sep (x # y # ys) = x @ sep @ join sep (y # ys)"

text \<open>
  \<^verbatim>\<open>encodeURIComponent\<close>: every byte outside the unreserved set becomes \<^verbatim>\<open>%XX\<close>.
\<close>

definition hexByte :: "char \<Rightarrow> string" where
  "hexByte c =
     [''0123456789ABCDEF'' ! ((of_char c :: nat) div 16),
      ''0123456789ABCDEF'' ! ((of_char c :: nat) mod 16)]"

definition uriUnreserved :: "char \<Rightarrow> bool" where
  "uriUnreserved c =
     (c \<in> set (''ABCDEFGHIJKLMNOPQRSTUVWXYZabcdefghijklmnopqrstuvwxyz'' @
                ''0123456789-_.!~*()'' @ [CHR 0x27]))"

definition encodeURIComponent :: "string \<Rightarrow> string" where
  "encodeURIComponent s =
     concat (map (\<lambda>c. if uriUnreserved c then [c] else CHR ''%'' # hexByte c) s)"

subsection \<open>Conversions and property access\<close>

text \<open>\<^verbatim>\<open>ToString\<close>, as a template literal applies it; \<open>None\<close> is \<^verbatim>\<open>undefined\<close>.\<close>

fun js_toString :: "json \<Rightarrow> string" where
  "js_toString JNull = ''null''"
| "js_toString (JBool b) = (if b then ''true'' else ''false'')"
| "js_toString (JNum n) = decimalInt n"
| "js_toString (JStr s) = s"
| "js_toString (JArr xs) = join '','' (map (\<lambda>x. if x = JNull then [] else js_toString x) xs)"
| "js_toString (JObj props) = ''[object Object]''"

definition template :: "json option \<Rightarrow> string" where
  "template v = (case v of None \<Rightarrow> ''undefined'' | Some x \<Rightarrow> js_toString x)"

text \<open>
  \<^verbatim>\<open>v.k\<close> for the property names this program reads (\<^verbatim>\<open>name\<close>, \<^verbatim>\<open>messages\<close>,
  \<^verbatim>\<open>recipientFolderPath\<close>, \<^verbatim>\<open>filename\<close>): a \<^verbatim>\<open>TypeError\<close> on \<^verbatim>\<open>null\<close>,
  \<^verbatim>\<open>undefined\<close> on anything that is not an object or lacks the property.
\<close>

definition getProp :: "json \<Rightarrow> string \<Rightarrow> Error + json option" where
  "getProp v k =
     (case v of
        JNull \<Rightarrow> Inl (TypeError ''Cannot read properties of null'')
      | JObj props \<Rightarrow> Inr (map_of props k)
      | _ \<Rightarrow> Inr None)"

text \<open>Object spread \<^verbatim>\<open>{...v}\<close>: the own enumerable properties of \<open>v\<close>.\<close>

definition ownProps :: "json \<Rightarrow> (string \<times> json) list" where
  "ownProps v =
     (case v of
        JObj props \<Rightarrow> props
      | JArr xs \<Rightarrow> zip (map decimal [0 ..< length xs]) xs
      | JStr s \<Rightarrow> zip (map decimal [0 ..< length s]) (map (\<lambda>c. JStr [c]) s)
      | _ \<Rightarrow> [])"

text \<open>
  Array spread \<^verbatim>\<open>[...v]\<close>: arrays and strings are iterable, a string by its
  characters; nothing else here is, and \<^verbatim>\<open>undefined\<close> is not.
\<close>

definition iterate :: "json option \<Rightarrow> Error + json list" where
  "iterate v =
     (case v of
        Some (JArr xs) \<Rightarrow> Inr xs
      | Some (JStr s) \<Rightarrow> Inr (map (\<lambda>c. JStr [c]) s)
      | _ \<Rightarrow> Inl (TypeError ''is not iterable''))"

text \<open>Writing properties one after the other into an object under construction.\<close>

definition assign :: "(string \<times> json) list \<Rightarrow> (string \<times> json) list \<Rightarrow> (string \<times> json) list" where
  "assign obj props = foldl (\<lambda>acc kv. AList.update (fst kv) (snd kv) acc) obj props"

section \<open>The file system under mail/\<close>

text \<open>
  The files and their text, and the paths on which every operation fails (no
  permission, a directory in the way, a missing parent). Directories are not tracked,
  and a write replaces the text of a file in one step.
\<close>

record filesystem =
  files :: "string \<rightharpoonup> contents"
  blocked :: "string \<Rightarrow> bool"

definition readFile :: "filesystem \<Rightarrow> string \<Rightarrow> Error + contents" where
  "readFile fs path =
     (if blocked fs path then Inl (Error ''EACCES'' [(''code'', JStr ''EACCES'')])
      else (case files fs path of
              None \<Rightarrow> Inl (Error ''ENOENT'' [(''code'', JStr ''ENOENT'')])
            | Some t \<Rightarrow> Inr t))"

definition writeFile :: "filesystem \<Rightarrow> string \<Rightarrow> contents \<Rightarrow> Error + filesystem" where
  "writeFile fs path body =
     (if blocked fs path then Inl (Error ''EACCES'' [(''code'', JStr ''EACCES'')])
      else Inr (fs\<lparr>files := (files fs)(path \<mapsto> body)\<rparr>))"

definition mkdir :: "filesystem \<Rightarrow> string \<Rightarrow> Error + filesystem" where
  "mkdir fs path =
     (if blocked fs path then Inl (Error ''EACCES'' [(''code'', JStr ''EACCES'')])
      else Inr fs)"

section \<open>Types of server.ts and of its collaborators\<close>

record TransactionSummary =
  recipientFolderPath :: string
  messageId :: string
  processedAt :: string
  from' :: "string option"
  subject :: "string option"
  filename :: string
  error :: "Error option"
  writeErr :: "Error option"

text \<open>A luxon \<^verbatim>\<open>DateTime\<close>, as far as the program looks at one.\<close>

record DateTime =
  toISO :: string
  weekNumber :: nat
  year :: nat

text \<open>
  The libraries the program calls and whose code is not part of it:
  \<^verbatim>\<open>sanitize(s, {replacement: '-'})\<close> of sanitize-filename and luxon's
  \<^verbatim>\<open>DateTime.fromISO\<close>, which reads the timestamp in the zone of the process.
\<close>

record libs =
  sanitize :: "string \<Rightarrow> string"
  fromISO :: "string \<Rightarrow> DateTime"

text \<open>What mailparser hands to the callback: \<^verbatim>\<open>parsed.from.value\<close>, \<^verbatim>\<open>parsed.subject\<close>
  and the JSON rendering of the whole decoded message.\<close>

record EmailAddress =
  address :: "string option"

record ParsedMail =
  parsed_from :: "EmailAddress list option"
  parsed_subject :: "string option"
  parsed_json :: json

text \<open>
  The data stream of one message: its bytes, and what the decoder will call back with
  on them, \<open>Inl parseErr\<close> or \<open>Inr parsed\<close>, once.
\<close>

record SMTPServerDataStream =
  raw :: contents
  decoded :: "Error + ParsedMail"

record SMTPServerSession =
  session_id :: string
  rcptTo :: "string list"

record response =
  status :: nat
  body :: json

section \<open>server.ts\<close>

text \<open>A result \<open>Inl e\<close> is an exception or a rejected promise; \<open>Inr x\<close> is a value.\<close>

definition EMAIL_DOMAINS :: "string option \<Rightarrow> string list" where
  "EMAIL_DOMAINS env = split (case env of None \<Rightarrow> [] | Some s \<Rightarrow> s) CHR '',''"

definition EMAIL_ACCOUNT_PREFIX :: "string option \<Rightarrow> string" where
  "EMAIL_ACCOUNT_PREFIX env = (case env of None \<Rightarrow> [] | Some s \<Rightarrow> s)"

text \<open>The result is what the callback is called with: nothing, or the refusal.\<close>

definition onRcptTo ::
  "caseConversions \<Rightarrow> string list \<Rightarrow> string \<Rightarrow> string \<Rightarrow> Error option" where
  "onRcptTo C domains accountPrefix addr =
     (let recipientAddress = toLowerCase C addr in
      if startsWith recipientAddress accountPrefix \<and>
         find (\<lambda>domain. endsWith recipientAddress (toLocaleLowerCase C domain)) domains \<noteq> None
      then None
      else Some (Error ''No thank you'' []))"

text \<open>What \<^verbatim>\<open>JSON.stringify\<close> prints of a summary: properties in the order of their
  creation, the undefined ones left out.\<close>

definition summary_json :: "TransactionSummary \<Rightarrow> json" where
  "summary_json ts =
     JObj ([(''recipientFolderPath'', JStr (recipientFolderPath ts)),
            (''messageId'', JStr (messageId ts)),
            (''processedAt'', JStr (processedAt ts)),
            (''filename'', JStr (filename ts))] @
           (case error ts of None \<Rightarrow> [] | Some e \<Rightarrow> [(''error'', JObj (enumerable e))]) @
           (case from' ts of None \<Rightarrow> [] | Some a \<Rightarrow> [(''from'', JStr a)]) @
           (case subject ts of None \<Rightarrow> [] | Some s \<Rightarrow> [(''subject'', JStr s)]) @
           (case writeErr ts of None \<Rightarrow> [] | Some e \<Rightarrow> [(''writeErr'', JObj (enumerable e))]))"

definition createRecipientDirectory :: "filesystem \<Rightarrow> string \<Rightarrow> Error + filesystem" where
  "createRecipientDirectory fs path = mkdir fs path"

text \<open>
  The tail of \<^verbatim>\<open>handleMessageStream\<close>: \<^verbatim>\<open>writeFile(filename, body).catch(...).then(resolve)\<close>.
\<close>

definition writeArtifact ::
  "filesystem \<Rightarrow> string \<Rightarrow> contents \<Rightarrow> TransactionSummary \<Rightarrow> (Error + TransactionSummary) \<times> filesystem" where
  "writeArtifact fs path content ts =
     (case writeFile fs path content of
        Inl e \<Rightarrow> (Inr (ts\<lparr>writeErr := Some e\<rparr>), fs)
      | Inr fs' \<Rightarrow> (Inr ts, fs'))"

text \<open>
  \<^verbatim>\<open>handleMessageStream\<close>, with the clock reading \<open>transactionTime\<close>. \<open>Inr ts\<close>: the promise
  resolved with \<open>ts\<close>. \<open>Inl e\<close>: \<open>e\<close> was thrown where nothing catches it and the promise
  never resolves: an error of the raw file's stream, which has no listener, or the
  \<^verbatim>\<open>TypeError\<close> of \<^verbatim>\<open>parsed.from.value[0].address\<close> on an empty address list.
\<close>

definition handleMessageStream ::
  "filesystem \<Rightarrow> string \<Rightarrow> string \<Rightarrow> DateTime \<Rightarrow> SMTPServerDataStream
     \<Rightarrow> (Error + TransactionSummary) \<times> filesystem" where
  "handleMessageStream fs folder msgId transactionTime stream =
     (let transactionSummary =
            \<lparr>recipientFolderPath = folder, messageId = msgId,
             processedAt = toISO transactionTime, from' = None, subject = None,
             filename = [], error = None, writeErr = None\<rparr>;
          messageLabel = toISO transactionTime @ ''-'' @ msgId
      in case writeFile fs (folder @ messageLabel @ ''.raw'') (raw stream) of
           Inl e \<Rightarrow> (Inl e, fs)
         | Inr fs1 \<Rightarrow>
             (case decoded stream of
                Inl parseErr \<Rightarrow>
                  writeArtifact fs1 (folder @ messageLabel @ ''.err'')
                    (JSON_stringify (JObj (enumerable parseErr)))
                    (transactionSummary\<lparr>error := Some parseErr\<rparr>)
              | Inr parsed \<Rightarrow>
                  (case (case parsed_from parsed of
                           None \<Rightarrow> Inr transactionSummary
                         | Some [] \<Rightarrow> Inl (TypeError ''Cannot read properties of undefined'')
                         | Some (a # _) \<Rightarrow> Inr (transactionSummary\<lparr>from' := address a\<rparr>)) of
                     Inl e \<Rightarrow> (Inl e, fs1)
                   | Inr ts \<Rightarrow>
                       writeArtifact fs1 (folder @ messageLabel @ ''.json'')
                         (JSON_stringify (parsed_json parsed))
                         (ts\<lparr>subject := parsed_subject parsed,
                            filename := messageLabel @ ''.json''\<rparr>))))"

definition loadWeeklyIndex :: "filesystem \<Rightarrow> string \<Rightarrow> Error + json" where
  "loadWeeklyIndex fs indexName =
     (let index = JObj [(''name'', JStr indexName), (''messages'', JArr [])]
      in case readFile fs (''mail/'' @ indexName @ ''.json'') of
           Inl e \<Rightarrow> Inr index
         | Inr existingData \<Rightarrow>
             (case JSON_parse existingData of
                Inl e \<Rightarrow> Inr index
              | Inr v \<Rightarrow> Inr v))"

definition saveWeeklyIndex :: "filesystem \<Rightarrow> json \<Rightarrow> Error + filesystem" where
  "saveWeeklyIndex fs index =
     (case getProp index ''name'' of
        Inl e \<Rightarrow> Inl e
      | Inr nm \<Rightarrow> writeFile fs (''mail/'' @ template nm @ ''.json'') (JSON_stringify index))"

text \<open>
  \<^verbatim>\<open>updateOrCreateWeeklyMessageIndex\<close> in its two halves, before and after the
  \<^verbatim>\<open>await\<close> of the load: other work of the process can run in between.
\<close>

definition indexNameOf :: "libs \<Rightarrow> TransactionSummary \<Rightarrow> string" where
  "indexNameOf L ts =
     (let at = fromISO L (processedAt ts)
      in ''w'' @ decimal (weekNumber at) @ ''-'' @ decimal (year at))"

definition newIndex :: "TransactionSummary \<Rightarrow> json \<Rightarrow> Error + json" where
  "newIndex ts existingIndex =
     (case getProp existingIndex ''messages'' of
        Inl e \<Rightarrow> Inl e
      | Inr m \<Rightarrow>
          (case iterate m of
             Inl e \<Rightarrow> Inl e
           | Inr ms \<Rightarrow>
               Inr (JObj (AList.update ''messages'' (JArr (summary_json ts # ms))
                            (ownProps existingIndex)))))"

definition updateLoad :: "libs \<Rightarrow> filesystem \<Rightarrow> TransactionSummary \<Rightarrow> Error + json" where
  "updateLoad L fs ts = loadWeeklyIndex fs (indexNameOf L ts)"

definition updateStore :: "filesystem \<Rightarrow> TransactionSummary \<Rightarrow> json \<Rightarrow> Error + filesystem" where
  "updateStore fs ts existingIndex =
     (case newIndex ts existingIndex of
        Inl e \<Rightarrow> Inl e
      | Inr idx \<Rightarrow> saveWeeklyIndex fs idx)"

definition updateOrCreateWeeklyMessageIndex ::
  "libs \<Rightarrow> filesystem \<Rightarrow> TransactionSummary \<Rightarrow> Error + filesystem" where
  "updateOrCreateWeeklyMessageIndex L fs ts =
     (case updateLoad L fs ts of
        Inl e \<Rightarrow> Inl e
      | Inr existingIndex \<Rightarrow> updateStore fs ts existingIndex)"

definition onData ::
  "libs \<Rightarrow> filesystem \<Rightarrow> DateTime \<Rightarrow> SMTPServerSession \<Rightarrow> SMTPServerDataStream
     \<Rightarrow> (Error + unit) \<times> filesystem" where
  "onData L fs transactionTime session stream =
     (case rcptTo session of
        [] \<Rightarrow> (Inl (TypeError ''Cannot read properties of undefined''), fs)
      | rcpt # _ \<Rightarrow>
          (let folder = ''mail/'' @ sanitize L rcpt @ ''/''
           in case createRecipientDirectory fs folder of
                Inl e \<Rightarrow> (Inl e, fs)
              | Inr fs0 \<Rightarrow>
                  (case handleMessageStream fs0 folder (session_id session) transactionTime stream of
                     (Inl e, fs1) \<Rightarrow> (Inl e, fs1)
                   | (Inr transactionSummary, fs1) \<Rightarrow>
                       if error transactionSummary \<noteq> None then (Inr (), fs1)
                       else if writeErr transactionSummary \<noteq> None then (Inr (), fs1)
                       else (case updateOrCreateWeeklyMessageIndex L fs1 transactionSummary of
                               Inl e \<Rightarrow> (Inl e, fs1)
                             | Inr fs2 \<Rightarrow> (Inr (), fs2)))))"

definition loadMessage ::
  "libs \<Rightarrow> filesystem \<Rightarrow> string \<Rightarrow> string \<Rightarrow> string \<Rightarrow> Error + json option" where
  "loadMessage L fs domain username messageFilename =
     (let path = ''mail/'' @ sanitize L (username @ ''@'' @ domain) @ ''/'' @ messageFilename
      in case readFile fs path of
           Inl e \<Rightarrow> Inr None
         | Inr existingData \<Rightarrow>
             (case JSON_parse existingData of
                Inl e \<Rightarrow> Inr None
              | Inr content \<Rightarrow>
                  Inr (Some (JObj (assign [(''domain'', JStr domain),
                                           (''username'', JStr username),
                                           (''messageFilename'', JStr messageFilename)]
                                          (ownProps content))))))"

text \<open>The route \<^verbatim>\<open>/api/mail/:domain/:username/:messageFilename\<close>.\<close>

definition getMessage ::
  "libs \<Rightarrow> filesystem \<Rightarrow> string \<Rightarrow> string \<Rightarrow> string \<Rightarrow> Error + response" where
  "getMessage L fs domain username messageFilename =
     (case loadMessage L fs domain username messageFilename of
        Inl e \<Rightarrow> Inl e
      | Inr None \<Rightarrow> Inr \<lparr>status = 404, body = JObj [(''message'', JStr ''Not Found'')]\<rparr>
      | Inr (Some msg) \<Rightarrow> Inr \<lparr>status = 200, body = msg\<rparr>)"

text \<open>The callback of \<^verbatim>\<open>index.messages.map\<close> in the route of one week.\<close>

definition messageView :: "json \<Rightarrow> Error + json" where
  "messageView msg =
     (case getProp msg ''recipientFolderPath'' of
        Inl e \<Rightarrow> Inl e
      | Inr (Some (JStr path)) \<Rightarrow>
          (let recipient = butlast (replace path ''mail/'' []);
               parts = split recipient CHR ''@'';
               username = (case parts of [] \<Rightarrow> None | u # _ \<Rightarrow> Some (JStr u));
               domain = (case drop 1 parts of [] \<Rightarrow> None | d # _ \<Rightarrow> Some (JStr d))
           in case getProp msg ''filename'' of
                Inl e \<Rightarrow> Inl e
              | Inr fname \<Rightarrow>
                  Inr (JObj (assign (ownProps msg)
                     [(''recipientFolderPath'', JNull),
                      (''recipient'', JStr recipient),
                      (''message'', JObj [(''href'', JStr
                          (''/api/mail/'' @ encodeURIComponent (template domain) @ ''/'' @
                           encodeURIComponent (template username) @ ''/'' @
                           encodeURIComponent (template fname)))])])))
      | Inr _ \<Rightarrow> Inl (TypeError ''replace is not a function''))"

fun mapM :: "('a \<Rightarrow> Error + 'b) \<Rightarrow> 'a list \<Rightarrow> Error + 'b list" where
  "mapM f [] = Inr []"
| "mapM f (x # xs) =
     (case f x of
        Inl e \<Rightarrow> Inl e
      | Inr y \<Rightarrow> (case mapM f xs of Inl e \<Rightarrow> Inl e | Inr ys \<Rightarrow> Inr (y # ys)))"

text \<open>The route \<^verbatim>\<open>/api/mail/:year/:week\<close>; its pattern lets only digits through.\<close>

definition getWeek :: "filesystem \<Rightarrow> string \<Rightarrow> string \<Rightarrow> Error + response" where
  "getWeek fs yearParam weekParam =
     (let indexName = ''w'' @ decimal (parseInt weekParam) @ ''-'' @
                      decimal (parseInt yearParam)
      in case loadWeeklyIndex fs indexName of
           Inl e \<Rightarrow> Inl e
         | Inr index \<Rightarrow>
             (case getProp index ''messages'' of
                Inl e \<Rightarrow> Inl e
              | Inr (Some (JArr ms)) \<Rightarrow>
                  (case mapM messageView ms of
                     Inl e \<Rightarrow> Inl e
                   | Inr views \<Rightarrow> Inr \<lparr>status = 200, body = JArr views\<rparr>)
              | Inr _ \<Rightarrow> Inl (TypeError ''map is not a function'')))"

section \<open>Index updates of several messages\<close>

text \<open>
  An update in progress: not yet started, suspended with the bucket it loaded, or
  over with its outcome. One step carries an update over one of its two file
  operations; a schedule names the update that moves next.
\<close>

datatype task =
    Pending TransactionSummary
  | Loaded TransactionSummary json
  | Finished "Error option"

definition step :: "libs \<Rightarrow> task \<Rightarrow> filesystem \<Rightarrow> task \<times> filesystem" where
  "step L t fs =
     (case t of
        Pending ts \<Rightarrow>
          (case updateLoad L fs ts of
             Inl e \<Rightarrow> (Finished (Some e), fs)
           | Inr existingIndex \<Rightarrow> (Loaded ts existingIndex, fs))
      | Loaded ts existingIndex \<Rightarrow>
          (case updateStore fs ts existingIndex of
             Inl e \<Rightarrow> (Finished (Some e), fs)
           | Inr fs' \<Rightarrow> (Finished None, fs'))
      | Finished r \<Rightarrow> (Finished r, fs))"

fun run :: "libs \<Rightarrow> nat list \<Rightarrow> task list \<times> filesystem \<Rightarrow> task list \<times> filesystem" where
  "run L [] st = st"
| "run L (i # sched) (tasks, fs) =
     (if i < length tasks
      then (case step L (tasks ! i) fs of
              (t', fs') \<Rightarrow> run L sched (tasks[i := t'], fs'))
      else run L sched (tasks, fs))"



section \<open>Timestamps, as luxon reads them\<close>

text \<open>
  luxon's code is not the program's. What follows is what luxon documents and
  computes for the two properties the program reads, \<^verbatim>\<open>weekNumber\<close> and \<^verbatim>\<open>year\<close>, of
  \<^verbatim>\<open>DateTime.fromISO(s)\<close> called without a zone: the instant that \<open>s\<close> denotes is taken
  to the zone of the process, \<^verbatim>\<open>year\<close> is the calendar year of the local date and
  \<^verbatim>\<open>weekNumber\<close> its ISO week number.
\<close>

record civil =
  cyear :: nat
  cmonth :: nat
  cday :: nat

definition leapYear :: "nat \<Rightarrow> bool" where
  "leapYear y = ((y mod 4 = 0 \<and> y mod 100 \<noteq> 0) \<or> y mod 400 = 0)"

definition daysInMonth :: "nat \<Rightarrow> nat \<Rightarrow> nat" where
  "daysInMonth y m =
     (if m = 2 then (if leapYear y then 29 else 28)
      else if m \<in> {4, 6, 9, 11} then 30 else 31)"

text \<open>The day of the year, from 1.\<close>

definition ordinal :: "civil \<Rightarrow> nat" where
  "ordinal d = cday d + sum_list (map (daysInMonth (cyear d)) [1 ..< cmonth d])"

text \<open>The day of the week, Monday 1 to Sunday 7; the first of January of the year 1 is a
  Monday.\<close>

definition isoWeekday :: "civil \<Rightarrow> nat" where
  "isoWeekday d =
     (let y = cyear d - 1
      in (365 * y + y div 4 - y div 100 + y div 400 + ordinal d - 1) mod 7 + 1)"

text \<open>The number of ISO weeks of a year, and the ISO week of a date with the year it
  belongs to: the week of the year's first Thursday is week 1.\<close>

definition weeksInWeekYear :: "nat \<Rightarrow> nat" where
  "weeksInWeekYear y =
     (let p1 = (y + y div 4 - y div 100 + y div 400) mod 7;
          l = y - 1;
          p2 = (l + l div 4 - l div 100 + l div 400) mod 7
      in if p1 = 4 \<or> p2 = 3 then 53 else 52)"

definition isoWeekNumber :: "civil \<Rightarrow> nat" where
  "isoWeekNumber d =
     (let n = (ordinal d + 10 - isoWeekday d) div 7
      in if n < 1 then weeksInWeekYear (cyear d - 1)
         else if n > weeksInWeekYear (cyear d) then 1
         else n)"

definition isoWeekYear :: "civil \<Rightarrow> nat" where
  "isoWeekYear d =
     (let n = (ordinal d + 10 - isoWeekday d) div 7
      in if n < 1 then cyear d - 1
         else if n > weeksInWeekYear (cyear d) then cyear d + 1
         else cyear d)"

definition nextDay :: "civil \<Rightarrow> civil" where
  "nextDay d =
     (if cday d < daysInMonth (cyear d) (cmonth d) then d\<lparr>cday := cday d + 1\<rparr>
      else if cmonth d < 12 then d\<lparr>cmonth := cmonth d + 1, cday := 1\<rparr>
      else \<lparr>cyear = cyear d + 1, cmonth = 1, cday = 1\<rparr>)"

definition previousDay :: "civil \<Rightarrow> civil" where
  "previousDay d =
     (if 1 < cday d then d\<lparr>cday := cday d - 1\<rparr>
      else if 1 < cmonth d
        then d\<lparr>cmonth := cmonth d - 1, cday := daysInMonth (cyear d) (cmonth d - 1)\<rparr>
      else \<lparr>cyear = cyear d - 1, cmonth = 12, cday = 31\<rparr>)"

text \<open>
  A UTC date with the minute of its day, seen in a zone that many minutes east of
  UTC. Zones are less than a day away from UTC.
\<close>

definition localDate :: "int \<Rightarrow> civil \<times> nat \<Rightarrow> civil" where
  "localDate zone t =
     (let minute = int (snd t) + zone
      in if minute < 0 then previousDay (fst t)
         else if 1440 \<le> minute then nextDay (fst t)
         else fst t)"

text \<open>
  The text that \<^verbatim>\<open>toISO()\<close> gives for a UTC time, \<^verbatim>\<open>YYYY-MM-DDTHH:MM:SS.mmmZ\<close>, read
  back as the date and the minute of the day.
\<close>

definition isDigits :: "string \<Rightarrow> bool" where
  "isDigits s = list_all (\<lambda>c. c \<in> set ''0123456789'') s"

definition field :: "string \<Rightarrow> nat \<Rightarrow> nat \<Rightarrow> string" where
  "field s i n = take n (drop i s)"

definition parseISO :: "string \<Rightarrow> (civil \<times> nat) option" where
  "parseISO s =
     (if length s = 24 \<and>
         isDigits (field s 0 4) \<and> field s 4 1 = ''-'' \<and> isDigits (field s 5 2) \<and>
         field s 7 1 = ''-'' \<and> isDigits (field s 8 2) \<and> field s 10 1 = ''T'' \<and>
         isDigits (field s 11 2) \<and> field s 13 1 = '':'' \<and> isDigits (field s 14 2) \<and>
         field s 16 1 = '':'' \<and> isDigits (field s 17 2) \<and> field s 19 1 = ''.'' \<and>
         isDigits (field s 20 3) \<and> field s 23 1 = ''Z''
      then (let y = parseInt (field s 0 4); m = parseInt (field s 5 2);
                d = parseInt (field s 8 2); h = parseInt (field s 11 2);
                mi = parseInt (field s 14 2); sec = parseInt (field s 17 2)
            in if 1 \<le> m \<and> m \<le> 12 \<and> 1 \<le> d \<and> d \<le> daysInMonth y m \<and>
                  h < 24 \<and> mi < 60 \<and> sec < 60
               then Some (\<lparr>cyear = y, cmonth = m, cday = d\<rparr>, 60 * h + mi)
               else None)
      else None)"

text \<open>
  The library \<open>L\<close> reads the timestamp \<open>s\<close> as luxon does in a process of that zone.
\<close>

definition luxonReads :: "int \<Rightarrow> libs \<Rightarrow> string \<Rightarrow> bool" where
  "luxonReads zone L s =
     (case parseISO s of
        None \<Rightarrow> False
      | Some t \<Rightarrow>
          weekNumber (fromISO L s) = isoWeekNumber (localDate zone t) \<and>
          year (fromISO L s) = cyear (localDate zone t))"

section \<open>The specification's wording, as definitions\<close>

text \<open>
  The bucket named after the UTC ISO week of a timestamp and the year of that week.
\<close>

definition utcIsoBucket :: "string \<Rightarrow> string" where
  "utcIsoBucket s =
     (case parseISO s of
        None \<Rightarrow> []
      | Some t \<Rightarrow> ''w'' @ decimal (isoWeekNumber (fst t)) @ ''-'' @ decimal (isoWeekYear (fst t)))"

text \<open>
  Case-insensitive comparison on ASCII text: the letters A to Z count as a to z, and
  a string is ASCII when none of its bytes has the high bit.
\<close>

definition asciiLower :: "char \<Rightarrow> char" where
  "asciiLower c =
     (case map_of (zip ''ABCDEFGHIJKLMNOPQRSTUVWXYZ'' ''abcdefghijklmnopqrstuvwxyz'') c of
        Some l \<Rightarrow> l
      | None \<Rightarrow> c)"



text \<open>The bucket with that name and an empty message sequence.\<close>

definition emptyBucket :: "string \<Rightarrow> json" where
  "emptyBucket indexName = JObj [(''name'', JStr indexName), (''messages'', JArr [])]"

text \<open>The storage artifact of the bucket of that name.\<close>

definition indexPath :: "string \<Rightarrow> string" where
  "indexPath indexName = ''mail/'' @ indexName @ ''.json''"

text \<open>The not-found answer of the read API.\<close>

definition notFound :: response where
  "notFound = \<lparr>status = 404, body = JObj [(''message'', JStr ''Not Found'')]\<rparr>"

text \<open>The storage path of an artifact of the recipient \<^verbatim>\<open>username@domain\<close>.\<close>

definition messagePath :: "libs \<Rightarrow> string \<Rightarrow> string \<Rightarrow> string \<Rightarrow> string" where
  "messagePath L domain username messageFilename =
     ''mail/'' @ sanitize L (username @ ''@'' @ domain) @ ''/'' @ messageFilename"

text \<open>The message sequence of the persisted bucket of that name, as a load reads it.\<close>

definition storedMessages :: "filesystem \<Rightarrow> string \<Rightarrow> json list" where
  "storedMessages fs indexName =
     (case loadWeeklyIndex fs indexName of
        Inl e \<Rightarrow> []
      | Inr index \<Rightarrow>
          (case getProp index ''messages'' of
             Inl e \<Rightarrow> []
           | Inr m \<Rightarrow> (case iterate m of Inl e \<Rightarrow> [] | Inr ms \<Rightarrow> ms)))"



text \<open>
  An entry of a weekly index that names an artifact and carries no failure: a
  non-empty \<^verbatim>\<open>filename\<close>, no \<^verbatim>\<open>error\<close>, no \<^verbatim>\<open>writeErr\<close>.
\<close>

definition goodEntry :: "json \<Rightarrow> bool" where
  "goodEntry m =
     (case m of
        JObj props \<Rightarrow>
          (case map_of props ''filename'' of Some (JStr f) \<Rightarrow> f \<noteq> [] | _ \<Rightarrow> False) \<and>
          map_of props ''error'' = None \<and> map_of props ''writeErr'' = None
      | _ \<Rightarrow> False)"

text \<open>The bucket names the program forms, in \<^verbatim>\<open>updateOrCreateWeeklyMessageIndex\<close> and in
  the route of one week.\<close>

definition weekName :: "nat \<Rightarrow> nat \<Rightarrow> string" where
  "weekName w y = ''w'' @ decimal w @ ''-'' @ decimal y"

text \<open>Every summary stored in any weekly index is such an entry.\<close>

definition indexesGood :: "filesystem \<Rightarrow> bool" where
  "indexesGood fs = (\<forall>w y. list_all goodEntry (storedMessages fs (weekName w y)))"

text \<open>A summary as \<^verbatim>\<open>onData\<close> hands it to the index update.\<close>

definition indexable :: "TransactionSummary \<Rightarrow> bool" where
  "indexable ts = (error ts = None \<and> writeErr ts = None \<and> filename ts \<noteq> [])"

definition entriesGood :: "json \<Rightarrow> bool" where
  "entriesGood index =
     (case getProp index ''messages'' of
        Inl e \<Rightarrow> True
      | Inr m \<Rightarrow> (case iterate m of Inl e \<Rightarrow> True | Inr ms \<Rightarrow> list_all goodEntry ms))"

text \<open>An update in progress that came from \<^verbatim>\<open>onData\<close> on a file system whose indexes
  were good.\<close>

definition taskGood :: "task \<Rightarrow> bool" where
  "taskGood t =
     (case t of
        Pending ts \<Rightarrow> indexable ts
      | Loaded ts existingIndex \<Rightarrow> indexable ts \<and> entriesGood existingIndex
      | Finished r \<Rightarrow> True)"

text \<open>Messages handled by \<^verbatim>\<open>onData\<close> one after the other.\<close>

fun serve ::
  "libs \<Rightarrow> filesystem \<Rightarrow> (DateTime \<times> SMTPServerSession \<times> SMTPServerDataStream) list \<Rightarrow> filesystem" where
  "serve L fs [] = fs"
| "serve L fs ((transactionTime, session, stream) # rest) =
     serve L (snd (onData L fs transactionTime session stream)) rest"

section \<open>Concrete data for the examples\<close>

text \<open>
  The case conversions on ASCII text of an engine in a locale that lowers as Unicode
  does by default, and of one in a Turkish locale, where \<^verbatim>\<open>toLocaleLowerCase\<close> turns
  \<^verbatim>\<open>I\<close> into the dotless i (the bytes C4 B1).
\<close>

definition defaultLocale :: caseConversions where
  "defaultLocale = \<lparr>lowerCaseOf = map asciiLower, localeLowerCaseOf = map asciiLower\<rparr>"

definition turkishLocale :: caseConversions where
  "turkishLocale =
     \<lparr>lowerCaseOf = map asciiLower,
      localeLowerCaseOf =
        (\<lambda>s. concat (map (\<lambda>c. if c = CHR ''I'' then [CHR 0xC4, CHR 0xB1] else [asciiLower c]) s))\<rparr>"

definition noFiles :: filesystem where
  "noFiles = \<lparr>files = Map.empty, blocked = (\<lambda>p. False)\<rparr>"

definition week10 :: libs where
  "week10 = \<lparr>sanitize = (\<lambda>s. s), fromISO = (\<lambda>s. \<lparr>toISO = s, weekNumber = 10, year = 2024\<rparr>)\<rparr>"

definition summaryA :: TransactionSummary where
  "summaryA = \<lparr>recipientFolderPath = ''mail/a@example.com/'', messageId = ''m1'',
     processedAt = ''2024-03-05T10:00:00.000Z'', from' = Some ''x@y.org'', subject = Some ''Hi'',
     filename = ''2024-03-05T10:00:00.000Z-m1.json'', error = None, writeErr = None\<rparr>"

text \<open>
  luxon in a process of the given zone, on the timestamps that \<^verbatim>\<open>toISO()\<close> gives.
  (Of any other string luxon makes an invalid \<^verbatim>\<open>DateTime\<close>; no \<^verbatim>\<open>processedAt\<close> is one.)
\<close>

definition luxonIn :: "int \<Rightarrow> libs" where
  "luxonIn zone =
     \<lparr>sanitize = (\<lambda>s. s),
      fromISO = (\<lambda>s. case parseISO s of
                       Some t \<Rightarrow> \<lparr>toISO = s, weekNumber = isoWeekNumber (localDate zone t),
                                  year = cyear (localDate zone t)\<rparr>
                     | None \<Rightarrow> \<lparr>toISO = s, weekNumber = 0, year = 0\<rparr>)\<rparr>"

text \<open>Summaries of a Monday at the end of December and of a late Sunday evening.\<close>

definition yearEnd :: TransactionSummary where
  "yearEnd = summaryA\<lparr>processedAt := ''2024-12-30T12:00:00.000Z'',
                        filename := ''2024-12-30T12:00:00.000Z-m1.json''\<rparr>"

definition lateSunday :: TransactionSummary where
  "lateSunday = summaryA\<lparr>processedAt := ''2024-03-03T23:30:00.000Z'',
                           filename := ''2024-03-03T23:30:00.000Z-m1.json''\<rparr>"

text \<open>A file system whose bucket of week 10 holds one message.\<close>

definition oneMessage :: filesystem where
  "oneMessage =
     noFiles\<lparr>files := [''mail/w10-2024.json'' \<mapsto>
        JsonText (JObj [(''name'', JStr ''w10-2024''),
                        (''messages'', JArr [summary_json summaryA])])]\<rparr>"

definition clockA :: DateTime where
  "clockA = \<lparr>toISO = ''2024-03-05T10:00:00.000Z'', weekNumber = 10, year = 2024\<rparr>"

text \<open>A message that decodes, one that does not, and one whose \<^verbatim>\<open>From:\<close> header is
  there and lists no address.\<close>

definition mailA :: SMTPServerDataStream where
  "mailA = \<lparr>raw = PlainText ''Subject: Hi'',
            decoded = Inr \<lparr>parsed_from = Some [\<lparr>address = Some ''x@y.org''\<rparr>],
                           parsed_subject = Some ''Hi'',
                           parsed_json = JObj [(''subject'', JStr ''Hi'')]\<rparr>\<rparr>"

definition mailBroken :: SMTPServerDataStream where
  "mailBroken = \<lparr>raw = PlainText ''???'', decoded = Inl (Error ''cannot decode'' [])\<rparr>"

definition mailNoSender :: SMTPServerDataStream where
  "mailNoSender = \<lparr>raw = PlainText ''From:'',
                   decoded = Inr \<lparr>parsed_from = Some [], parsed_subject = None,
                                  parsed_json = JObj []\<rparr>\<rparr>"

text \<open>A file system that takes the raw copies and refuses the artifacts.\<close>

definition rawOnly :: filesystem where
  "rawOnly = \<lparr>files = Map.empty, blocked = (\<lambda>p. \<not> endsWith p ''.raw'')\<rparr>"

definition summaryB :: TransactionSummary where
  "summaryB = \<lparr>recipientFolderPath = ''mail/b@example.com/'', messageId = ''m2'',
     processedAt = ''2024-03-05T10:00:00.250Z'', from' = None, subject = Some ''Re: Hi'',
     filename = ''2024-03-05T10:00:00.250Z-m2.json'', error = None, writeErr = None\<rparr>"

definition sessionA :: SMTPServerSession where
  "sessionA = \<lparr>session_id = ''m1'', rcptTo = [''a@example.com'']\<rparr>"

section \<open>Strings and lists\<close>

lemma find_found: "(find P xs \<noteq> None) = (\<exists>x\<in>set xs. P x)"
  by (induction xs) auto



section \<open>Recipient policy\<close>







text \<open>
  Claim C9. When the list of domains contains the empty string, as it does when the
  environment variable is unset (\<^verbatim>\<open>''.split(',')\<close> is \<^verbatim>\<open>['']\<close>), the search for a
  matching domain succeeds for every address, and every address that starts with the
  prefix is accepted.
\<close>

theorem empty_domain_accepts_all:
  assumes "[] \<in> set domains"
  shows "[] \<in> set (EMAIL_DOMAINS None) \<and>
         find (\<lambda>domain. endsWith (toLowerCase C addr) (toLocaleLowerCase C domain)) domains \<noteq> None \<and>
         (startsWith (toLowerCase C addr) accountPrefix \<longrightarrow>
            onRcptTo C domains accountPrefix addr = None)"
proof -
  have "endsWith (toLowerCase C addr) (toLocaleLowerCase C [])"
    by (simp add: endsWith_def toLocaleLowerCase_def)
  with assms have found:
    "find (\<lambda>domain. endsWith (toLowerCase C addr) (toLocaleLowerCase C domain)) domains \<noteq> None"
    unfolding find_found by blast
  have "EMAIL_DOMAINS None = [[]]"
    by (simp add: EMAIL_DOMAINS_def)
  with found show ?thesis
    by (simp add: onRcptTo_def)
qed

theorem empty_domain_accepts_all_witness:
  "onRcptTo defaultLocale (EMAIL_DOMAINS None) [] ''anyone@anywhere.org'' = None \<and>
   onRcptTo turkishLocale (EMAIL_DOMAINS (Some ''example.com,'')) ''qa-'' ''QA-bot@elsewhere.net'' = None"
proof -
  have a: "[] \<in> set (EMAIL_DOMAINS None)" by (simp add: EMAIL_DOMAINS_def)
  have b: "[] \<in> set (EMAIL_DOMAINS (Some ''example.com,''))" by (simp add: EMAIL_DOMAINS_def)
  show ?thesis
    using empty_domain_accepts_all [OF a, of defaultLocale "''anyone@anywhere.org''" "[]"]
          empty_domain_accepts_all [OF b, of turkishLocale "''QA-bot@elsewhere.net''" "''qa-''"]
    by (simp add: startsWith_def toLowerCase_def defaultLocale_def turkishLocale_def asciiLower_def)
qed

section \<open>Files and JSON\<close>

lemma writeFile_result:
  "writeFile fs path content = Inr fs' \<longleftrightarrow>
     \<not> blocked fs path \<and> fs' = fs\<lparr>files := (files fs)(path \<mapsto> content)\<rparr>"
  by (auto simp: writeFile_def split: if_splits)

lemma readFile_written:
  "writeFile fs path content = Inr fs' \<Longrightarrow> readFile fs' path = Inr content"
  by (auto simp: writeFile_def readFile_def split: if_splits)

lemma JSON_roundtrip: "JSON_parse (JSON_stringify v) = Inr v"
  by (simp add: JSON_parse_def JSON_stringify_def)

lemma loadWeeklyIndex_cases:
  "loadWeeklyIndex fs indexName =
     (case files fs (indexPath indexName) of
        Some (JsonText v) \<Rightarrow> if blocked fs (indexPath indexName) then Inr (emptyBucket indexName) else Inr v
      | _ \<Rightarrow> Inr (emptyBucket indexName))"
  by (simp add: loadWeeklyIndex_def readFile_def JSON_parse_def emptyBucket_def indexPath_def
      split: option.splits contents.splits)

lemma newIndex_bucket:
  "map_of props ''messages'' = Some (JArr ms) \<Longrightarrow>
   newIndex ts (JObj props) = Inr (JObj (AList.update ''messages'' (JArr (summary_json ts # ms)) props))"
  by (simp add: newIndex_def getProp_def iterate_def ownProps_def)

lemma update_keeps_others:
  "k \<noteq> k' \<Longrightarrow> map_of (AList.update k v al) k' = map_of al k'"
  by (simp add: update_conv')

section \<open>The weekly index\<close>

text \<open>
  Claim C6. Loading a weekly index never fails, whatever the bucket name: the load
  returns a value in every case, and when the bucket's file is absent, cannot be read
  or does not hold JSON, that value is the bucket with that name and no messages. The
  route of one week answers an absent bucket with status 200 and the empty array.
\<close>

theorem loadWeeklyIndex_total:
  "(\<exists>index. loadWeeklyIndex fs indexName = Inr index) \<and>
   (files fs (indexPath indexName) = None \<or> blocked fs (indexPath indexName) \<or>
    (\<exists>s. files fs (indexPath indexName) = Some (PlainText s))
    \<longrightarrow> loadWeeklyIndex fs indexName = Inr (emptyBucket indexName)) \<and>
   (files fs (indexPath (''w'' @ decimal (parseInt weekParam) @ ''-'' @ decimal (parseInt yearParam))) = None
    \<longrightarrow> getWeek fs yearParam weekParam = Inr \<lparr>status = 200, body = JArr []\<rparr>)"
proof -
  have total: "\<exists>index. loadWeeklyIndex fs indexName = Inr index"
    by (simp add: loadWeeklyIndex_cases split: option.splits contents.splits)
  have fallback: "files fs (indexPath indexName) = None \<or> blocked fs (indexPath indexName) \<or>
    (\<exists>s. files fs (indexPath indexName) = Some (PlainText s))
    \<longrightarrow> loadWeeklyIndex fs indexName = Inr (emptyBucket indexName)"
    by (auto simp: loadWeeklyIndex_cases split: option.splits contents.splits)
  have api: "files fs (indexPath (''w'' @ decimal (parseInt weekParam) @ ''-'' @ decimal (parseInt yearParam))) = None
    \<longrightarrow> getWeek fs yearParam weekParam = Inr \<lparr>status = 200, body = JArr []\<rparr>"
    by (simp add: getWeek_def Let_def loadWeeklyIndex_cases emptyBucket_def getProp_def)
  from total fallback api show ?thesis by blast
qed

theorem loadWeeklyIndex_total_witness:
  "loadWeeklyIndex noFiles ''w10-2024''
     = Inr (JObj [(''name'', JStr ''w10-2024''), (''messages'', JArr [])]) \<and>
   loadWeeklyIndex \<lparr>files = [''mail/w10-2024.json'' \<mapsto> PlainText ''name: w10''], blocked = (\<lambda>p. False)\<rparr> ''w10-2024''
     = Inr (JObj [(''name'', JStr ''w10-2024''), (''messages'', JArr [])]) \<and>
   getWeek noFiles ''2024'' ''10''
     = Inr \<lparr>status = 200, body = JArr []\<rparr>"
  using loadWeeklyIndex_total [of "noFiles" "''w10-2024''" "''10''" "''2024''"]
        loadWeeklyIndex_total [of "\<lparr>files = [''mail/w10-2024.json'' \<mapsto> PlainText ''name: w10''], blocked = (\<lambda>p. False)\<rparr>" "''w10-2024''"]
  by (simp add: emptyBucket_def indexPath_def noFiles_def)

text \<open>
  Claim C7. A weekly index that was persisted and is then loaded under its name is the
  index that was persisted, as JSON data.
\<close>

theorem save_then_load:
  assumes "saveWeeklyIndex fs index = Inr fs'"
  shows "\<exists>nm. getProp index ''name'' = Inr nm \<and> loadWeeklyIndex fs' (template nm) = Inr index"
proof -
  from assms obtain nm where nm: "getProp index ''name'' = Inr nm"
    and w: "writeFile fs (''mail/'' @ template nm @ ''.json'') (JSON_stringify index) = Inr fs'"
    by (auto simp: saveWeeklyIndex_def split: sum.splits)
  from readFile_written [OF w] have "loadWeeklyIndex fs' (template nm) = Inr index"
    by (simp add: loadWeeklyIndex_def JSON_roundtrip)
  with nm show ?thesis by blast
qed

theorem save_then_load_witness:
  "\<exists>fs'. saveWeeklyIndex noFiles (JObj [(''name'', JStr ''w10-2024''),
                                          (''messages'', JArr [summary_json summaryA])]) = Inr fs' \<and>
         loadWeeklyIndex fs' ''w10-2024'' =
           Inr (JObj [(''name'', JStr ''w10-2024''), (''messages'', JArr [summary_json summaryA])])"
proof -
  let ?index = "JObj [(''name'', JStr ''w10-2024''), (''messages'', JArr [summary_json summaryA])]"
  obtain fs' where saved: "saveWeeklyIndex noFiles ?index = Inr fs'"
    by (simp add: saveWeeklyIndex_def getProp_def writeFile_def noFiles_def)
  from save_then_load [OF saved] have "loadWeeklyIndex fs' ''w10-2024'' = Inr ?index"
    by (simp add: getProp_def template_def)
  with saved show ?thesis by blast
qed

lemma digit_values:
  "digitValue CHR ''0'' = 0" "digitValue CHR ''1'' = 1" "digitValue CHR ''2'' = 2"
  "digitValue CHR ''3'' = 3" "digitValue CHR ''4'' = 4" "digitValue CHR ''5'' = 5"
  "digitValue CHR ''6'' = 6" "digitValue CHR ''7'' = 7" "digitValue CHR ''8'' = 8"
  "digitValue CHR ''9'' = 9"
  by (simp_all add: digitValue_def upt_conv_Cons)

lemmas calendar_defs = isoWeekNumber_def isoWeekYear_def ordinal_def isoWeekday_def
  weeksInWeekYear_def daysInMonth_def leapYear_def localDate_def nextDay_def previousDay_def
  upt_conv_Cons Let_def

lemmas parse_defs = parseISO_def field_def isDigits_def parseInt_def digit_values
  daysInMonth_def leapYear_def

lemma parsed_minute: "parseISO s = Some t \<Longrightarrow> snd t < 1440"
  by (auto simp: parseISO_def Let_def split: if_splits)

lemma localDate_utc: "snd t < 1440 \<Longrightarrow> localDate 0 t = fst t"
  by (simp add: localDate_def)

lemma index_name_in_zone:
  assumes "parseISO (processedAt ts) = Some t" and "luxonReads zone L (processedAt ts)"
  shows "indexNameOf L ts = ''w'' @ decimal (isoWeekNumber (localDate zone t)) @ ''-'' @
                           decimal (cyear (localDate zone t))"
  using assms by (simp add: indexNameOf_def luxonReads_def Let_def)

lemma luxonIn_reads: "parseISO s = Some t \<Longrightarrow> luxonReads zone (luxonIn zone) s"
  by (simp add: luxonReads_def luxonIn_def)

text \<open>
  Claim C5, as the code has it. For a summary whose \<^verbatim>\<open>processedAt\<close> is a UTC time as
  \<^verbatim>\<open>toISO()\<close> writes it, in a process whose zone is UTC, the index update names the
  bucket \<^verbatim>\<open>w<weekNumber>-<year>\<close> with the ISO week number and the calendar year of
  that UTC date, and loads that bucket. When what it loaded is a bucket with a message
  array and the bucket's file can be written, the update is one write of the whole
  bucket to the file of the bucket's name: the summary in front of the messages that
  were there, in their order, and every other property, the name among them, as it
  was.
\<close>

theorem updateOrCreateWeeklyMessageIndex_prepends:
  assumes "parseISO (processedAt ts) = Some t"
    and "luxonReads 0 L (processedAt ts)"
    and "loadWeeklyIndex fs (indexNameOf L ts) = Inr (JObj props)"
    and "map_of props ''messages'' = Some (JArr ms)"
    and "\<not> blocked fs (''mail/'' @ template (map_of props ''name'') @ ''.json'')"
  shows "indexNameOf L ts = ''w'' @ decimal (isoWeekNumber (fst t)) @ ''-'' @ decimal (cyear (fst t)) \<and>
         (\<exists>props'.
            updateOrCreateWeeklyMessageIndex L fs ts =
              Inr (fs\<lparr>files := (files fs)(''mail/'' @ template (map_of props ''name'') @ ''.json''
                                           \<mapsto> JSON_stringify (JObj props'))\<rparr>) \<and>
            props' = AList.update ''messages'' (JArr (summary_json ts # ms)) props \<and>
            map_of props' ''messages'' = Some (JArr (summary_json ts # ms)) \<and>
            map_of props' ''name'' = map_of props ''name'' \<and>
            map fst props' = map fst props)"
proof -
  let ?props' = "AList.update ''messages'' (JArr (summary_json ts # ms)) props"
  have nm: "map_of ?props' ''name'' = map_of props ''name''"
    by (simp add: update_keeps_others)
  have msgs: "map_of ?props' ''messages'' = Some (JArr (summary_json ts # ms))"
    by (simp add: update_conv')
  have "''messages'' \<in> fst ` set props"
    using assms(4) by (auto dest: map_of_SomeD intro: rev_image_eqI)
  then have keys: "map fst ?props' = map fst props"
    by (simp add: update_keys)
  have "saveWeeklyIndex fs (JObj ?props') =
          Inr (fs\<lparr>files := (files fs)(''mail/'' @ template (map_of props ''name'') @ ''.json''
                                       \<mapsto> JSON_stringify (JObj ?props'))\<rparr>)"
    using assms(5) by (simp add: saveWeeklyIndex_def getProp_def nm writeFile_def)
  then have "updateOrCreateWeeklyMessageIndex L fs ts =
          Inr (fs\<lparr>files := (files fs)(''mail/'' @ template (map_of props ''name'') @ ''.json''
                                       \<mapsto> JSON_stringify (JObj ?props'))\<rparr>)"
    using assms(3,4)
    by (simp add: updateOrCreateWeeklyMessageIndex_def updateLoad_def updateStore_def newIndex_bucket)
  moreover have "indexNameOf L ts = ''w'' @ decimal (isoWeekNumber (fst t)) @ ''-'' @
                           decimal (cyear (fst t))"
    using index_name_in_zone [OF assms(1,2)] localDate_utc [OF parsed_minute [OF assms(1)]]
    by simp
  ultimately show ?thesis
    using nm msgs keys by blast
qed

lemma processedAt_summaryB:
  "parseISO (processedAt summaryB) = Some (\<lparr>cyear = 2024, cmonth = 3, cday = 5\<rparr>, 600)"
  by (simp add: summaryB_def parse_defs)

theorem updateOrCreateWeeklyMessageIndex_prepends_witness:
  "indexNameOf (luxonIn 0) summaryB = ''w10-2024'' \<and>
   updateOrCreateWeeklyMessageIndex (luxonIn 0) oneMessage summaryB =
     Inr (noFiles\<lparr>files := [''mail/w10-2024.json'' \<mapsto>
            JsonText (JObj [(''name'', JStr ''w10-2024''),
                            (''messages'', JArr [summary_json summaryB, summary_json summaryA])])]\<rparr>)"
proof -
  note parsed = processedAt_summaryB
  have reads: "luxonReads 0 (luxonIn 0) (processedAt summaryB)"
    using parsed by (rule luxonIn_reads)
  have week: "isoWeekNumber \<lparr>cyear = 2024, cmonth = 3, cday = 5\<rparr> = 10"
    by (simp add: calendar_defs)
  have name: "indexNameOf (luxonIn 0) summaryB = ''w10-2024''"
    using index_name_in_zone [OF parsed reads] by (simp add: localDate_utc week)
  have load: "loadWeeklyIndex oneMessage (indexNameOf (luxonIn 0) summaryB)
                = Inr (JObj [(''name'', JStr ''w10-2024''),
                             (''messages'', JArr [summary_json summaryA])])"
    by (simp add: name loadWeeklyIndex_cases indexPath_def oneMessage_def noFiles_def)
  have msgs: "map_of [(''name'', JStr ''w10-2024''), (''messages'', JArr [summary_json summaryA])]
                ''messages'' = Some (JArr [summary_json summaryA])"
    by simp
  have free: "\<not> blocked oneMessage (''mail/'' @
      template (map_of [(''name'', JStr ''w10-2024''),
                        (''messages'', JArr [summary_json summaryA])] ''name'') @ ''.json'')"
    by (simp add: oneMessage_def noFiles_def)
  show ?thesis
    using updateOrCreateWeeklyMessageIndex_prepends [OF parsed reads load msgs free] name
    by (simp add: template_def JSON_stringify_def oneMessage_def noFiles_def)
qed

text \<open>
  Claim C5, as stated, fails. In a process of zone UTC a summary of Monday the 30th of
  December 2024, which is in ISO week 1 of 2025, goes to the bucket \<^verbatim>\<open>w1-2024\<close>: the year
  is the calendar year. In a process nine hours east of UTC a summary of Sunday the 3rd
  of March 2024, 23:30 UTC, which is in UTC ISO week 9, goes to the bucket
  \<^verbatim>\<open>w10-2024\<close>: \<^verbatim>\<open>fromISO\<close> reads the time in the zone of the process.
\<close>

theorem bucket_name_not_utc_iso_week:
  "luxonReads 0 (luxonIn 0) (processedAt yearEnd) \<and>
   indexNameOf (luxonIn 0) yearEnd = ''w1-2024'' \<and>
   utcIsoBucket (processedAt yearEnd) = ''w1-2025'' \<and>
   luxonReads 540 (luxonIn 540) (processedAt lateSunday) \<and>
   indexNameOf (luxonIn 540) lateSunday = ''w10-2024'' \<and>
   utcIsoBucket (processedAt lateSunday) = ''w9-2024''"
proof -
  have december: "parseISO (processedAt yearEnd) = Some (\<lparr>cyear = 2024, cmonth = 12, cday = 30\<rparr>, 720)"
    by (simp add: yearEnd_def parse_defs)
  have march: "parseISO (processedAt lateSunday) = Some (\<lparr>cyear = 2024, cmonth = 3, cday = 3\<rparr>, 1410)"
    by (simp add: lateSunday_def parse_defs)
  have utc: "localDate 0 (\<lparr>cyear = 2024, cmonth = 12, cday = 30\<rparr>, 720)
               = \<lparr>cyear = 2024, cmonth = 12, cday = 30\<rparr>"
    by (simp add: localDate_def)
  have east: "localDate 540 (\<lparr>cyear = 2024, cmonth = 3, cday = 3\<rparr>, 1410)
               = \<lparr>cyear = 2024, cmonth = 3, cday = 4\<rparr>"
    by (simp add: localDate_def nextDay_def daysInMonth_def leapYear_def)
  have firstWeek: "isoWeekNumber \<lparr>cyear = 2024, cmonth = 12, cday = 30\<rparr> = 1"
    by (simp add: calendar_defs)
  have tenthWeek: "isoWeekNumber \<lparr>cyear = 2024, cmonth = 3, cday = 4\<rparr> = 10"
    by (simp add: calendar_defs)
  have "indexNameOf (luxonIn 0) yearEnd = ''w1-2024''"
    using index_name_in_zone [OF december luxonIn_reads [OF december]]
    by (simp add: utc firstWeek)
  moreover have "utcIsoBucket (processedAt yearEnd) = ''w1-2025''"
    by (simp add: utcIsoBucket_def december calendar_defs)
  moreover have "indexNameOf (luxonIn 540) lateSunday = ''w10-2024''"
    using index_name_in_zone [OF march luxonIn_reads [OF march]]
    by (simp add: east tenthWeek)
  moreover have "utcIsoBucket (processedAt lateSunday) = ''w9-2024''"
    by (simp add: utcIsoBucket_def march calendar_defs)
  ultimately show ?thesis
    using luxonIn_reads [OF december] luxonIn_reads [OF march] by blast
qed

section \<open>Ingestion of one message\<close>

lemma writeArtifact_fields:
  "writeArtifact fs path content ts = (Inr ts', fs') \<Longrightarrow>
     filename ts' = filename ts \<and> error ts' = error ts \<and> from' ts' = from' ts \<and>
     subject ts' = subject ts \<and>
     (writeErr ts' \<noteq> None) = (blocked fs path \<or> writeErr ts \<noteq> None)"
  by (auto simp: writeArtifact_def writeFile_def split: if_splits)

lemma writeArtifact_resolves:
  "\<exists>ts' fs'. writeArtifact fs path content ts = (Inr ts', fs')"
  by (simp add: writeArtifact_def split: sum.splits)

lemma blocked_writeFile:
  "writeFile fs path content = Inr fs' \<Longrightarrow> blocked fs' = blocked fs"
  by (auto simp: writeFile_def split: if_splits)

text \<open>What a resolved ingestion leaves in the three outcome props of its summary.\<close>

lemma resolved_summary:
  assumes "handleMessageStream fs folder msgId transactionTime stream = (Inr ts, fs')"
  shows "filename ts = (case decoded stream of
                          Inl parseErr \<Rightarrow> []
                        | Inr parsed \<Rightarrow> toISO transactionTime @ ''-'' @ msgId @ ''.json'') \<and>
         error ts = (case decoded stream of Inl parseErr \<Rightarrow> Some parseErr | Inr parsed \<Rightarrow> None) \<and>
         (writeErr ts \<noteq> None) =
            blocked fs (folder @ toISO transactionTime @ ''-'' @ msgId @
                        (case decoded stream of Inl parseErr \<Rightarrow> ''.err'' | Inr parsed \<Rightarrow> ''.json''))"
proof -
  from assms obtain fs1 where
    rawWritten: "writeFile fs (folder @ (toISO transactionTime @ ''-'' @ msgId) @ ''.raw'') (raw stream) = Inr fs1"
    by (auto simp: handleMessageStream_def Let_def split: sum.splits)
  note same = blocked_writeFile [OF rawWritten]
  show ?thesis
  proof (cases "decoded stream")
    case (Inl parseErr)
    with assms rawWritten show ?thesis
      by (auto simp: handleMessageStream_def Let_def same dest!: writeArtifact_fields)
  next
    case (Inr parsed)
    with assms rawWritten show ?thesis
      by (auto simp: handleMessageStream_def Let_def same
               split: option.splits list.splits dest!: writeArtifact_fields)
  qed
qed

lemma resolved_indexable:
  assumes "handleMessageStream fs folder msgId transactionTime stream = (Inr ts, fs')"
    and "error ts = None" and "writeErr ts = None"
  shows "indexable ts"
  using resolved_summary [OF assms(1)] assms(2,3)
  by (cases "decoded stream") (simp_all add: indexable_def)

text \<open>
  Claim C2. When the ingestion of a message stream completes with a summary, exactly
  one of the two holds: its \<^verbatim>\<open>filename\<close> is not empty, or its \<^verbatim>\<open>error\<close> is present.
  Both props are fixed by the outcome of decoding alone; \<^verbatim>\<open>writeErr\<close> is present
  exactly when the artifact could not be written, in the one case as in the other.
\<close>

theorem summary_exactly_one:
  assumes "handleMessageStream fs folder msgId transactionTime stream = (Inr ts, fs')"
  shows "((filename ts \<noteq> []) \<noteq> (error ts \<noteq> None)) \<and>
         filename ts = (case decoded stream of
                          Inl parseErr \<Rightarrow> []
                        | Inr parsed \<Rightarrow> toISO transactionTime @ ''-'' @ msgId @ ''.json'') \<and>
         error ts = (case decoded stream of Inl parseErr \<Rightarrow> Some parseErr | Inr parsed \<Rightarrow> None) \<and>
         (writeErr ts \<noteq> None) =
            blocked fs (folder @ toISO transactionTime @ ''-'' @ msgId @
                        (case decoded stream of Inl parseErr \<Rightarrow> ''.err'' | Inr parsed \<Rightarrow> ''.json''))"
  using resolved_summary [OF assms]
  by (cases "decoded stream") simp_all

theorem summary_exactly_one_witness:
  "(\<exists>ts fs'. handleMessageStream rawOnly ''mail/a@example.com/'' ''m1'' clockA mailBroken = (Inr ts, fs') \<and>
       filename ts = [] \<and> error ts = Some (Error ''cannot decode'' []) \<and> writeErr ts \<noteq> None) \<and>
   (\<exists>ts fs'. handleMessageStream rawOnly ''mail/a@example.com/'' ''m1'' clockA mailA = (Inr ts, fs') \<and>
       filename ts = ''2024-03-05T10:00:00.000Z-m1.json'' \<and> error ts = None \<and> writeErr ts \<noteq> None)"
proof -
  have free: "\<not> blocked rawOnly ''mail/a@example.com/2024-03-05T10:00:00.000Z-m1.raw''"
    by (simp add: rawOnly_def endsWith_def)
  have "\<exists>ts fs'. handleMessageStream rawOnly ''mail/a@example.com/'' ''m1'' clockA mailBroken = (Inr ts, fs')"
    using free
    by (simp add: handleMessageStream_def writeFile_def clockA_def mailBroken_def writeArtifact_resolves)
  then obtain ts1 fs1 where
    one: "handleMessageStream rawOnly ''mail/a@example.com/'' ''m1'' clockA mailBroken = (Inr ts1, fs1)"
    by blast
  have "\<exists>ts fs'. handleMessageStream rawOnly ''mail/a@example.com/'' ''m1'' clockA mailA = (Inr ts, fs')"
    using free
    by (simp add: handleMessageStream_def writeFile_def clockA_def mailA_def writeArtifact_resolves)
  then obtain ts2 fs2 where
    two: "handleMessageStream rawOnly ''mail/a@example.com/'' ''m1'' clockA mailA = (Inr ts2, fs2)"
    by blast
  have "filename ts1 = [] \<and> error ts1 = Some (Error ''cannot decode'' []) \<and> writeErr ts1 \<noteq> None"
    using summary_exactly_one [OF one]
    by (simp add: mailBroken_def clockA_def rawOnly_def endsWith_def)
  moreover
  have "filename ts2 = ''2024-03-05T10:00:00.000Z-m1.json'' \<and> error ts2 = None \<and> writeErr ts2 \<noteq> None"
    using summary_exactly_one [OF two]
    by (simp add: mailA_def clockA_def rawOnly_def endsWith_def)
  ultimately show ?thesis
    using one two by blast
qed

text \<open>
  The ingestion resolves with a summary whenever the raw copy can be written and the
  decoder does not deliver a sender header with an empty address list.
\<close>

lemma handleMessageStream_resolves:
  assumes "\<not> blocked fs (folder @ toISO transactionTime @ ''-'' @ msgId @ ''.raw'')"
    and "\<And>parsed. decoded stream = Inr parsed \<Longrightarrow> parsed_from parsed \<noteq> Some []"
  shows "\<exists>ts fs'. handleMessageStream fs folder msgId transactionTime stream = (Inr ts, fs')"
proof (cases "decoded stream")
  case (Inl parseErr)
  with assms(1) show ?thesis
    by (simp add: handleMessageStream_def writeFile_def writeArtifact_resolves)
next
  case (Inr parsed)
  with assms show ?thesis
    by (auto simp: handleMessageStream_def writeFile_def writeArtifact_resolves Let_def
             split: option.splits list.splits)
qed

text \<open>
  Claim C4. The ingestion is to resolve with a summary for every stream and never to
  throw. On a message that decodes and whose \<^verbatim>\<open>From:\<close> header lists no address it
  does not: reading \<^verbatim>\<open>parsed.from.value[0].address\<close> throws a \<^verbatim>\<open>TypeError\<close> inside the
  decoder's callback, after the raw copy and before any artifact is written, and no
  summary is produced.
\<close>

theorem handleMessageStream_throws:
  "handleMessageStream noFiles ''mail/a@example.com/'' ''m1'' clockA mailNoSender =
     (Inl (TypeError ''Cannot read properties of undefined''),
      noFiles\<lparr>files := [''mail/a@example.com/2024-03-05T10:00:00.000Z-m1.raw'' \<mapsto> PlainText ''From:'']\<rparr>)"
  by (simp add: handleMessageStream_def writeFile_def noFiles_def clockA_def mailNoSender_def)

section \<open>Reading a message back\<close>

lemma writeArtifact_stored:
  "writeArtifact fs path content ts = (Inr ts', fs') \<Longrightarrow> writeErr ts' = None \<Longrightarrow>
     readFile fs' path = Inr content \<and> filename ts' = filename ts \<and> error ts' = error ts"
  by (auto simp: writeArtifact_def writeFile_def readFile_def split: if_splits)

lemma ingested_artifact:
  assumes "handleMessageStream fs0 folder msgId transactionTime stream = (Inr ts, fs)"
    and "error ts = None" and "writeErr ts = None"
  shows "\<exists>parsed. decoded stream = Inr parsed \<and>
           readFile fs (folder @ filename ts) = Inr (JSON_stringify (parsed_json parsed))"
proof -
  from assms(1) obtain fs1 where
    rawWritten: "writeFile fs0 (folder @ (toISO transactionTime @ ''-'' @ msgId) @ ''.raw'') (raw stream) = Inr fs1"
    by (auto simp: handleMessageStream_def Let_def split: sum.splits)
  show ?thesis
  proof (cases "decoded stream")
    case (Inl parseErr)
    with assms rawWritten show ?thesis
      by (auto simp: handleMessageStream_def Let_def dest!: writeArtifact_stored)
  next
    case (Inr parsed)
    with assms rawWritten show ?thesis
      by (auto simp: handleMessageStream_def Let_def
               split: option.splits list.splits
               dest!: writeArtifact_stored)
  qed
qed

text \<open>
  Claim C8. For every domain, user name and artifact name, \<^verbatim>\<open>loadMessage\<close> reads the
  path that the ingestion of a message to \<^verbatim>\<open>username@domain\<close> wrote its artifact to:
  after an ingestion without error it returns the stored artifact. Whenever reading
  the file or parsing it fails, a missing file included, the result is \<^verbatim>\<open>null\<close> and
  the route answers with the one not-found response, which says nothing of the failure.
\<close>

theorem loadMessage_not_found:
  "((\<exists>e. readFile fs (messagePath L domain username messageFilename) = Inl e) \<or>
    (\<exists>existingData e. readFile fs (messagePath L domain username messageFilename) = Inr existingData \<and>
        JSON_parse existingData = Inl e)
    \<longrightarrow> loadMessage L fs domain username messageFilename = Inr None \<and>
        getMessage L fs domain username messageFilename = Inr notFound) \<and>
   (handleMessageStream fs0 (''mail/'' @ sanitize L (username @ ''@'' @ domain) @ ''/'') msgId
        transactionTime stream = (Inr ts, fs) \<and> error ts = None \<and> writeErr ts = None
    \<longrightarrow> (\<exists>parsed. decoded stream = Inr parsed \<and>
          loadMessage L fs domain username (filename ts) =
            Inr (Some (JObj (assign [(''domain'', JStr domain), (''username'', JStr username),
                                     (''messageFilename'', JStr (filename ts))]
                                    (ownProps (parsed_json parsed)))))))"
proof -
  have failure: "(\<exists>e. readFile fs (messagePath L domain username messageFilename) = Inl e) \<or>
    (\<exists>existingData e. readFile fs (messagePath L domain username messageFilename) = Inr existingData \<and>
        JSON_parse existingData = Inl e)
    \<longrightarrow> loadMessage L fs domain username messageFilename = Inr None \<and>
        getMessage L fs domain username messageFilename = Inr notFound"
    by (auto simp: loadMessage_def getMessage_def messagePath_def notFound_def)
  have stored: "\<exists>parsed. decoded stream = Inr parsed \<and>
          loadMessage L fs domain username (filename ts) =
            Inr (Some (JObj (assign [(''domain'', JStr domain), (''username'', JStr username),
                                     (''messageFilename'', JStr (filename ts))]
                                    (ownProps (parsed_json parsed)))))"
    if "handleMessageStream fs0 (''mail/'' @ sanitize L (username @ ''@'' @ domain) @ ''/'') msgId
        transactionTime stream = (Inr ts, fs)" "error ts = None" "writeErr ts = None"
  proof -
    from ingested_artifact [OF that] obtain parsed where
      "decoded stream = Inr parsed"
      "readFile fs ((''mail/'' @ sanitize L (username @ ''@'' @ domain) @ ''/'') @ filename ts)
         = Inr (JSON_stringify (parsed_json parsed))"
      by blast
    then show ?thesis
      by (simp add: loadMessage_def JSON_roundtrip)
  qed
  from failure stored show ?thesis
    by blast
qed

theorem loadMessage_not_found_witness:
  "getMessage week10 noFiles ''example.com'' ''a'' ''2024-03-05T10:00:00.000Z-m1.json'' = Inr notFound \<and>
   getMessage week10 (noFiles\<lparr>files := [''mail/a@example.com/x.raw'' \<mapsto> PlainText ''Subject: Hi'']\<rparr>)
       ''example.com'' ''a'' ''x.raw'' = Inr notFound \<and>
   (\<exists>ts fs. handleMessageStream noFiles ''mail/a@example.com/'' ''m1'' clockA mailA = (Inr ts, fs) \<and>
      loadMessage week10 fs ''example.com'' ''a'' ''2024-03-05T10:00:00.000Z-m1.json'' =
        Inr (Some (JObj [(''domain'', JStr ''example.com''), (''username'', JStr ''a''),
                         (''messageFilename'', JStr ''2024-03-05T10:00:00.000Z-m1.json''),
                         (''subject'', JStr ''Hi'')])))"
proof -
  let ?fs2 = "noFiles\<lparr>files := [''mail/a@example.com/x.raw'' \<mapsto> PlainText ''Subject: Hi'']\<rparr>"
  have absent: "\<exists>e. readFile noFiles (messagePath week10 ''example.com'' ''a'' ''2024-03-05T10:00:00.000Z-m1.json'') = Inl e"
    by (simp add: readFile_def noFiles_def)
  have garbled: "\<exists>existingData e. readFile ?fs2 (messagePath week10 ''example.com'' ''a'' ''x.raw'') = Inr existingData \<and>
        JSON_parse existingData = Inl e"
    by (simp add: readFile_def noFiles_def messagePath_def week10_def JSON_parse_def)
  have "\<exists>ts fs. handleMessageStream noFiles (''mail/'' @ sanitize week10 (''a'' @ ''@'' @ ''example.com'') @ ''/'') ''m1'' clockA mailA = (Inr ts, fs)
           \<and> error ts = None \<and> writeErr ts = None \<and> filename ts = ''2024-03-05T10:00:00.000Z-m1.json''"
    by (simp add: handleMessageStream_def writeArtifact_def writeFile_def noFiles_def week10_def
          clockA_def mailA_def)
  then obtain ts fs where
    ingested: "handleMessageStream noFiles (''mail/'' @ sanitize week10 (''a'' @ ''@'' @ ''example.com'') @ ''/'') ''m1'' clockA mailA = (Inr ts, fs)"
      "error ts = None" "writeErr ts = None"
    and name: "filename ts = ''2024-03-05T10:00:00.000Z-m1.json''"
    by blast
  have "loadMessage week10 fs ''example.com'' ''a'' ''2024-03-05T10:00:00.000Z-m1.json'' =
        Inr (Some (JObj [(''domain'', JStr ''example.com''), (''username'', JStr ''a''),
                         (''messageFilename'', JStr ''2024-03-05T10:00:00.000Z-m1.json''),
                         (''subject'', JStr ''Hi'')]))"
    using loadMessage_not_found [of fs week10 "''example.com''" "''a''" _ noFiles "''m1''" clockA mailA ts] ingested name
    by (auto simp: mailA_def assign_def ownProps_def)
  moreover have "handleMessageStream noFiles ''mail/a@example.com/'' ''m1'' clockA mailA = (Inr ts, fs)"
    using ingested(1) by (simp add: week10_def)
  moreover have "getMessage week10 noFiles ''example.com'' ''a'' ''2024-03-05T10:00:00.000Z-m1.json'' = Inr notFound"
    using loadMessage_not_found [of noFiles week10 "''example.com''" "''a''" "''2024-03-05T10:00:00.000Z-m1.json''"] absent
    by blast
  moreover have "getMessage week10 ?fs2 ''example.com'' ''a'' ''x.raw'' = Inr notFound"
    using loadMessage_not_found [of ?fs2 week10 "''example.com''" "''a''" "''x.raw''"] garbled
    by blast
  ultimately show ?thesis
    by blast
qed

section \<open>Several updates of one bucket\<close>

lemma index_name_week10: "indexNameOf week10 ts = ''w10-2024''"
  by (simp add: indexNameOf_def week10_def)














section \<open>What the weekly indexes hold\<close>

lemma decimal_digit: "m < 10 \<Longrightarrow> ''0123456789'' ! m \<in> set ''0123456789''"
  by (rule nth_mem) simp

lemma decimal_no_slash: "CHR ''/'' \<notin> set (decimal n)"
proof (induction n rule: decimal.induct)
  case (1 n)
  have last: "''0123456789'' ! (n mod 10) \<noteq> CHR ''/''"
    using decimal_digit [of "n mod 10"] by auto
  show ?case
  proof (cases "n < 10")
    case True
    with last show ?thesis by (subst decimal.simps) simp
  next
    case False
    with last "1.IH" show ?thesis by (subst decimal.simps) simp
  qed
qed

lemma index_path_not_in_folder:
  "indexPath (weekName w y) \<noteq> ''mail/'' @ s @ ''/'' @ rest"
proof
  assume "indexPath (weekName w y) = ''mail/'' @ s @ ''/'' @ rest"
  then have "''w'' @ decimal w @ ''-'' @ decimal y @ ''.json'' = s @ ''/'' @ rest"
    by (simp add: indexPath_def weekName_def)
  moreover have "CHR ''/'' \<in> set (s @ ''/'' @ rest)"
    by simp
  ultimately have "CHR ''/'' \<in> set (''w'' @ decimal w @ ''-'' @ decimal y @ ''.json'')"
    by (simp only:)
  then show False
    using decimal_no_slash [of w] decimal_no_slash [of y] by simp
qed

lemma storedMessages_cong:
  "files fs' (indexPath nm) = files fs (indexPath nm) \<Longrightarrow>
   blocked fs' (indexPath nm) = blocked fs (indexPath nm) \<Longrightarrow>
   storedMessages fs' nm = storedMessages fs nm"
proof -
  assume "files fs' (indexPath nm) = files fs (indexPath nm)"
    "blocked fs' (indexPath nm) = blocked fs (indexPath nm)"
  then have "loadWeeklyIndex fs' nm = loadWeeklyIndex fs nm"
    by (simp only: loadWeeklyIndex_cases)
  then show ?thesis
    by (simp only: storedMessages_def)
qed

lemma writeFile_elsewhere:
  "writeFile fs path content = Inr fs' \<Longrightarrow> q \<noteq> path \<Longrightarrow>
     files fs' q = files fs q \<and> blocked fs' = blocked fs"
  by (auto simp: writeFile_def split: if_splits)

lemma writeArtifact_elsewhere:
  "writeArtifact fs path content ts = (r, fs') \<Longrightarrow> q \<noteq> path \<Longrightarrow>
     files fs' q = files fs q \<and> blocked fs' = blocked fs"
  by (auto simp: writeArtifact_def writeFile_def split: if_splits)

lemma handleMessageStream_elsewhere:
  assumes "handleMessageStream fs (''mail/'' @ s @ ''/'') msgId transactionTime stream = (r, fs')"
  shows "files fs' (indexPath (weekName w y)) = files fs (indexPath (weekName w y)) \<and>
         blocked fs' = blocked fs"
proof -
  let ?label = "toISO transactionTime @ ''-'' @ msgId"
  note apart = index_path_not_in_folder [of w y s]
  show ?thesis
  proof (cases "writeFile fs ((''mail/'' @ s @ ''/'') @ ?label @ ''.raw'') (raw stream)")
    case (Inl e)
    with assms show ?thesis
      by (auto simp: handleMessageStream_def Let_def)
  next
    case (Inr fs1)
    from writeFile_elsewhere [OF Inr, of "indexPath (weekName w y)"] apart [of "?label @ ''.raw''"]
    have raw: "files fs1 (indexPath (weekName w y)) = files fs (indexPath (weekName w y))"
      "blocked fs1 = blocked fs"
      by simp_all
    from assms Inr have "fs' = fs1 \<or>
        (\<exists>ext content ts. writeArtifact fs1 ((''mail/'' @ s @ ''/'') @ ?label @ ext) content ts = (r, fs'))"
      by (auto simp: handleMessageStream_def Let_def split: sum.splits option.splits list.splits)
    then show ?thesis
    proof
      assume "fs' = fs1"
      with raw show ?thesis by simp
    next
      assume "\<exists>ext content ts. writeArtifact fs1 ((''mail/'' @ s @ ''/'') @ ?label @ ext) content ts = (r, fs')"
      then obtain ext content ts where
        "writeArtifact fs1 ((''mail/'' @ s @ ''/'') @ ?label @ ext) content ts = (r, fs')"
        by blast
      from writeArtifact_elsewhere [OF this, of "indexPath (weekName w y)"] apart [of "?label @ ext"] raw
      show ?thesis by simp
    qed
  qed
qed

lemma goodEntry_summary:
  "indexable ts \<Longrightarrow> goodEntry (summary_json ts)"
  by (simp add: indexable_def goodEntry_def summary_json_def split: option.splits)

lemma loaded_entriesGood:
  assumes "indexesGood fs" and "updateLoad L fs ts = Inr existingIndex"
  shows "entriesGood existingIndex"
proof -
  have name: "indexNameOf L ts = weekName (weekNumber (fromISO L (processedAt ts))) (year (fromISO L (processedAt ts)))"
    by (simp add: indexNameOf_def weekName_def Let_def)
  from assms(1) have "list_all goodEntry (storedMessages fs (indexNameOf L ts))"
    unfolding name indexesGood_def by blast
  with assms(2) show ?thesis
    by (simp add: entriesGood_def storedMessages_def updateLoad_def split: sum.splits)
qed

lemma stored_entriesGood:
  assumes "indexesGood fs" and "indexable ts" and "entriesGood existingIndex"
    and "updateStore fs ts existingIndex = Inr fs'"
  shows "indexesGood fs'"
proof -
  from assms(4) obtain idx where idx: "newIndex ts existingIndex = Inr idx"
    and saved: "saveWeeklyIndex fs idx = Inr fs'"
    by (auto simp: updateStore_def split: sum.splits)
  from idx obtain m ms where m: "getProp existingIndex ''messages'' = Inr m" "iterate m = Inr ms"
    and idx_eq: "idx = JObj (AList.update ''messages'' (JArr (summary_json ts # ms)) (ownProps existingIndex))"
    by (auto simp: newIndex_def split: sum.splits)
  from assms(3) m have old: "list_all goodEntry ms"
    by (simp add: entriesGood_def)
  from saved obtain path where
    written: "writeFile fs path (JSON_stringify idx) = Inr fs'"
    by (auto simp: saveWeeklyIndex_def split: sum.splits)
  have "list_all goodEntry (storedMessages fs' (weekName w y))" for w y
  proof (cases "indexPath (weekName w y) = path")
    case True
    from written have free: "\<not> blocked fs' path" and
      "files fs' path = Some (JsonText idx)"
      by (auto simp: writeFile_def JSON_stringify_def split: if_splits)
    with True have "storedMessages fs' (weekName w y) = summary_json ts # ms"
      by (simp add: storedMessages_def loadWeeklyIndex_cases idx_eq getProp_def update_conv' iterate_def)
    with old assms(2) show ?thesis
      by (simp add: goodEntry_summary)
  next
    case False
    from writeFile_elsewhere [OF written False]
    have "storedMessages fs' (weekName w y) = storedMessages fs (weekName w y)"
      by (intro storedMessages_cong) simp_all
    with assms(1) show ?thesis
      by (simp add: indexesGood_def)
  qed
  then show ?thesis
    by (simp add: indexesGood_def)
qed

lemma update_indexesGood:
  assumes "indexesGood fs" and "indexable ts"
    and "updateOrCreateWeeklyMessageIndex L fs ts = Inr fs'"
  shows "indexesGood fs'"
proof -
  from assms(3) obtain existingIndex where
    loaded: "updateLoad L fs ts = Inr existingIndex" and
    stored: "updateStore fs ts existingIndex = Inr fs'"
    by (auto simp: updateOrCreateWeeklyMessageIndex_def split: sum.splits)
  from stored_entriesGood [OF assms(1,2) loaded_entriesGood [OF assms(1) loaded] stored]
  show ?thesis .
qed


lemma indexesGood_elsewhere:
  assumes "\<And>w y. files fs' (indexPath (weekName w y)) = files fs (indexPath (weekName w y))"
    and "blocked fs' = blocked fs"
  shows "storedMessages fs' (weekName w y) = storedMessages fs (weekName w y)"
    and "indexesGood fs' = indexesGood fs"
proof -
  show one: "storedMessages fs' (weekName w y) = storedMessages fs (weekName w y)" for w y
    using assms by (intro storedMessages_cong) simp_all
  show "indexesGood fs' = indexesGood fs"
    by (simp add: indexesGood_def one)
qed

lemma ingested_indexes:
  assumes "handleMessageStream fs (''mail/'' @ s @ ''/'') msgId transactionTime stream = (r, fs')"
  shows "storedMessages fs' (weekName w y) = storedMessages fs (weekName w y)"
    and "indexesGood fs' = indexesGood fs"
proof -
  have files: "files fs' (indexPath (weekName w y)) = files fs (indexPath (weekName w y))" for w y
    using handleMessageStream_elsewhere [OF assms] by blast
  have perms: "blocked fs' = blocked fs"
    using handleMessageStream_elsewhere [OF assms] by blast
  show "storedMessages fs' (weekName w y) = storedMessages fs (weekName w y)"
    using files perms by (rule indexesGood_elsewhere(1))
  show "indexesGood fs' = indexesGood fs"
    using files perms by (rule indexesGood_elsewhere(2))
qed

lemma onData_result:
  "snd (onData L fs transactionTime session stream) = fs \<or>
   (\<exists>rcpt others r fs1.
      rcptTo session = rcpt # others \<and>
      handleMessageStream fs (''mail/'' @ sanitize L rcpt @ ''/'') (session_id session)
        transactionTime stream = (r, fs1) \<and>
      (snd (onData L fs transactionTime session stream) = fs1 \<or>
       (\<exists>ts. r = Inr ts \<and> error ts = None \<and> writeErr ts = None \<and>
          updateOrCreateWeeklyMessageIndex L fs1 ts
            = Inr (snd (onData L fs transactionTime session stream)))))"
proof (cases "rcptTo session")
  case Nil
  then show ?thesis by (simp add: onData_def)
next
  case (Cons rcpt others)
  show ?thesis
  proof (cases "blocked fs (''mail/'' @ sanitize L rcpt @ ''/'')")
    case True
    with Cons show ?thesis
      by (simp add: onData_def createRecipientDirectory_def mkdir_def)
  next
    case False
    obtain r fs1 where ingested:
      "handleMessageStream fs (''mail/'' @ sanitize L rcpt @ ''/'') (session_id session)
        transactionTime stream = (r, fs1)"
      by (cases "handleMessageStream fs (''mail/'' @ sanitize L rcpt @ ''/'') (session_id session)
        transactionTime stream")
    with Cons False show ?thesis
      by (auto simp: onData_def createRecipientDirectory_def mkdir_def split: sum.splits)
  qed
qed

lemma onData_indexesGood:
  assumes "indexesGood fs"
  shows "indexesGood (snd (onData L fs transactionTime session stream))"
  using onData_result [of L fs transactionTime session stream]
proof (elim disjE exE conjE)
  assume "snd (onData L fs transactionTime session stream) = fs"
  with assms show ?thesis by simp
next
  fix rcpt others r fs1
  assume ingested: "handleMessageStream fs (''mail/'' @ sanitize L rcpt @ ''/'') (session_id session)
        transactionTime stream = (r, fs1)"
    and "snd (onData L fs transactionTime session stream) = fs1"
  with assms ingested_indexes(2) [OF ingested] show ?thesis by simp
next
  fix rcpt others r fs1 ts
  assume ingested: "handleMessageStream fs (''mail/'' @ sanitize L rcpt @ ''/'') (session_id session)
        transactionTime stream = (r, fs1)"
    and r: "r = Inr ts" and clean: "error ts = None" "writeErr ts = None"
    and updated: "updateOrCreateWeeklyMessageIndex L fs1 ts
            = Inr (snd (onData L fs transactionTime session stream))"
  from assms ingested_indexes(2) [OF ingested] have "indexesGood fs1" by simp
  moreover from ingested r clean have "indexable ts"
    by (intro resolved_indexable) simp_all
  ultimately show ?thesis
    using updated by (rule update_indexesGood)
qed

lemma serve_indexesGood:
  "indexesGood fs \<Longrightarrow> indexesGood (serve L fs deliveries)"
proof (induction deliveries arbitrary: fs)
  case Nil
  then show ?case by simp
next
  case (Cons d deliveries)
  obtain transactionTime session stream where d: "d = (transactionTime, session, stream)"
    by (cases d)
  from Cons.prems have "indexesGood (snd (onData L fs transactionTime session stream))"
    by (rule onData_indexesGood)
  then show ?case
    unfolding d serve.simps by (rule Cons.IH)
qed

lemma onData_no_append:
  assumes "rcptTo session = rcpt # others"
    and "handleMessageStream fs (''mail/'' @ sanitize L rcpt @ ''/'') (session_id session)
           transactionTime stream = (Inr ts, fs1)"
    and "error ts \<noteq> None \<or> writeErr ts \<noteq> None"
  shows "storedMessages (snd (onData L fs transactionTime session stream)) (weekName w y)
           = storedMessages fs (weekName w y)"
proof -
  have "snd (onData L fs transactionTime session stream) = fs \<or>
        snd (onData L fs transactionTime session stream) = fs1"
  proof (cases "blocked fs (''mail/'' @ sanitize L rcpt @ ''/'')")
    case True
    with assms(1) show ?thesis
      by (simp add: onData_def createRecipientDirectory_def mkdir_def)
  next
    case False
    with assms show ?thesis
      by (auto simp: onData_def createRecipientDirectory_def mkdir_def Let_def)
  qed
  with ingested_indexes(1) [OF assms(2)] show ?thesis
    by auto
qed

lemma step_good:
  assumes "indexesGood fs" and "taskGood t" and "step L t fs = (t', fs')"
  shows "indexesGood fs' \<and> taskGood t'"
proof (cases t)
  case (Pending ts)
  with assms show ?thesis
    by (auto simp: step_def taskGood_def split: sum.splits dest: loaded_entriesGood)
next
  case (Loaded ts existingIndex)
  with assms show ?thesis
    by (auto simp: step_def taskGood_def split: sum.splits dest: stored_entriesGood)
next
  case (Finished r)
  with assms show ?thesis
    by (auto simp: step_def)
qed

lemma list_all_update:
  "list_all P xs \<Longrightarrow> P x \<Longrightarrow> list_all P (xs[i := x])"
  using set_update_subset_insert [of xs i x] by (auto simp: list_all_iff)

lemma run_good:
  assumes "indexesGood fs" and "list_all taskGood tasks"
  shows "indexesGood (snd (run L sched (tasks, fs))) \<and>
         list_all taskGood (fst (run L sched (tasks, fs)))"
  using assms
proof (induction sched arbitrary: tasks fs)
  case Nil
  then show ?case by simp
next
  case (Cons i sched)
  show ?case
  proof (cases "i < length tasks")
    case False
    with Cons show ?thesis by simp
  next
    case True
    obtain t' fs' where moved: "step L (tasks ! i) fs = (t', fs')"
      by (cases "step L (tasks ! i) fs")
    from Cons.prems(2) True have "taskGood (tasks ! i)"
      by (simp add: list_all_length)
    from step_good [OF Cons.prems(1) this moved] Cons.prems(2)
    have "indexesGood fs'" "list_all taskGood (tasks[i := t'])"
      by (simp_all add: list_all_update)
    from Cons.IH [OF this] True moved show ?thesis
      by simp
  qed
qed

lemma indexesGood_noFiles: "indexesGood noFiles"
  by (simp add: indexesGood_def storedMessages_def loadWeeklyIndex_cases noFiles_def
      emptyBucket_def getProp_def iterate_def)

lemma sanitize_week10: "sanitize week10 s = s"
  by (simp add: week10_def)

lemma summaryA_clean: "error summaryA = None" "writeErr summaryA = None"
  by (simp_all add: summaryA_def)

lemma served_example:
  "storedMessages (serve week10 noFiles [(clockA, sessionA, mailA), (clockA, sessionA, mailBroken)])
     ''w10-2024'' = [summary_json summaryA]"
proof -
  let ?raw = "''mail/a@example.com/2024-03-05T10:00:00.000Z-m1.raw''"
  let ?json = "''mail/a@example.com/2024-03-05T10:00:00.000Z-m1.json''"
  let ?err = "''mail/a@example.com/2024-03-05T10:00:00.000Z-m1.err''"
  let ?index = "JsonText (JObj [(''name'', JStr ''w10-2024''), (''messages'', JArr [summary_json summaryA])])"
  let ?fs1 = "noFiles\<lparr>files := [?raw \<mapsto> PlainText ''Subject: Hi'',
                                   ?json \<mapsto> JsonText (JObj [(''subject'', JStr ''Hi'')])]\<rparr>"
  let ?fs2 = "?fs1\<lparr>files := (files ?fs1)(''mail/w10-2024.json'' \<mapsto> ?index)\<rparr>"
  have ingest: "handleMessageStream noFiles ''mail/a@example.com/'' ''m1'' clockA mailA = (Inr summaryA, ?fs1)"
    by (simp add: handleMessageStream_def writeArtifact_def writeFile_def noFiles_def clockA_def
          mailA_def summaryA_def JSON_stringify_def)
  have load: "loadWeeklyIndex ?fs1 ''w10-2024'' = Inr (emptyBucket ''w10-2024'')"
    by (simp add: loadWeeklyIndex_cases indexPath_def noFiles_def)
  have free: "blocked noFiles = (\<lambda>p. False)"
    by (simp add: noFiles_def)
  have update: "updateOrCreateWeeklyMessageIndex week10 ?fs1 summaryA = Inr ?fs2"
    by (simp add: updateOrCreateWeeklyMessageIndex_def updateLoad_def index_name_week10 load
          updateStore_def emptyBucket_def newIndex_def getProp_def iterate_def ownProps_def
          saveWeeklyIndex_def template_def writeFile_def JSON_stringify_def free)
  have one: "onData week10 noFiles clockA sessionA mailA = (Inr (), ?fs2)"
    using ingest update
    by (simp add: onData_def sessionA_def createRecipientDirectory_def mkdir_def free
          sanitize_week10 summaryA_clean)
  have two: "storedMessages (snd (onData week10 ?fs2 clockA sessionA mailBroken)) ''w10-2024''
               = storedMessages ?fs2 ''w10-2024''"
  proof -
    have "\<exists>ts fs3. handleMessageStream ?fs2 (''mail/'' @ sanitize week10 ''a@example.com'' @ ''/'')
              (session_id sessionA) clockA mailBroken = (Inr ts, fs3) \<and> error ts \<noteq> None"
      by (simp add: handleMessageStream_def writeArtifact_def writeFile_def free clockA_def
          mailBroken_def sessionA_def sanitize_week10)
    then obtain ts fs3 where
      "handleMessageStream ?fs2 (''mail/'' @ sanitize week10 ''a@example.com'' @ ''/'')
              (session_id sessionA) clockA mailBroken = (Inr ts, fs3)" "error ts \<noteq> None"
      by blast
    from onData_no_append [of sessionA "''a@example.com''" "[]", OF _ this(1), of 10 2024] this(2)
    show ?thesis
      by (simp add: sessionA_def weekName_def)
  qed
  have "storedMessages ?fs2 ''w10-2024'' = [summary_json summaryA]"
    by (simp add: storedMessages_def loadWeeklyIndex_cases indexPath_def noFiles_def
          getProp_def iterate_def)
  with one two show ?thesis
    by simp
qed

text \<open>
  Claim C10. \<^verbatim>\<open>onData\<close> hands a summary to the index update only when its \<^verbatim>\<open>error\<close>
  and its \<^verbatim>\<open>writeErr\<close> are both absent: with either present, no weekly index changes.
  Consequently, from a file system in which every summary stored in a weekly index has
  a non-empty \<^verbatim>\<open>filename\<close> and neither \<^verbatim>\<open>error\<close> nor \<^verbatim>\<open>writeErr\<close>, that stays so
  after any messages handled one after the other, and after any interleaving of the
  loads and saves of index updates that \<^verbatim>\<open>onData\<close> started.
\<close>

theorem index_holds_clean_summaries:
  assumes "indexesGood fs"
  shows "indexesGood (serve L fs deliveries) \<and>
         (list_all taskGood tasks \<longrightarrow> indexesGood (snd (run L sched (tasks, fs)))) \<and>
         (rcptTo session = rcpt # others \<and>
          handleMessageStream fs (''mail/'' @ sanitize L rcpt @ ''/'') (session_id session)
            transactionTime stream = (Inr ts, fs1) \<and>
          (error ts \<noteq> None \<or> writeErr ts \<noteq> None)
          \<longrightarrow> (\<forall>w y. storedMessages (snd (onData L fs transactionTime session stream)) (weekName w y)
                       = storedMessages fs (weekName w y)))"
  using serve_indexesGood [OF assms] run_good [OF assms] onData_no_append
  by blast


theorem index_holds_clean_summaries_witness:
  "indexesGood noFiles \<and>
   indexesGood (serve week10 noFiles [(clockA, sessionA, mailA), (clockA, sessionA, mailBroken)]) \<and>
   storedMessages (serve week10 noFiles [(clockA, sessionA, mailA), (clockA, sessionA, mailBroken)])
     ''w10-2024'' = [summary_json summaryA] \<and>
   goodEntry (summary_json summaryA)"
  using index_holds_clean_summaries [OF indexesGood_noFiles, of week10
          "[(clockA, sessionA, mailA), (clockA, sessionA, mailBroken)]"]
        indexesGood_noFiles served_example
  by (simp add: goodEntry_def summary_json_def summaryA_def)

end
